theory Spec2Isabelle
  imports Main
begin

section \<open>Values, errors and configuration\<close>

text \<open>
  The orchestration layer \<^verbatim>\<open>BaselineSystem\<close> (lightning/systems/semi/Baseline.py) wires an
  embedding module, a text encoder, an optional codebook matching module, an acoustic
  model and a loss function. The numeric content of tensors is outside this development:
  a floating-point tensor is the list of its slices along the first axis, each slice a
  value of an arbitrary type \<open>'a\<close>. Integer tensors, which the layer builds itself, are
  concrete.
\<close>

datatype error =
    AssertionError string
  | KeyError string
  | IndexError
  | TypeError
  | ValueError
  | AttributeError string

text \<open>Configuration values, as read from the nested key-value configuration files.\<close>

datatype cfg =
    CNone
  | CBool bool
  | CInt int
  | CStr string
  | CList "cfg list"
  | CDict "(string \<times> cfg) list"

text \<open>Subscripting \<^verbatim>\<open>c[k]\<close> with a string key: a missing key raises KeyError.\<close>

fun cfg_get :: "cfg \<Rightarrow> string \<Rightarrow> error + cfg" where
  "cfg_get (CDict kvs) k = (case map_of kvs k of None \<Rightarrow> Inl (KeyError k) | Some v \<Rightarrow> Inr v)"
| "cfg_get _ k = Inl TypeError"

text \<open>Python's truth value of a configuration value, as tested by \<^verbatim>\<open>if self.use_matching\<close>.\<close>

fun truthy :: "cfg \<Rightarrow> bool" where
  "truthy CNone = False"
| "truthy (CBool b) = b"
| "truthy (CInt n) = (n \<noteq> 0)"
| "truthy (CStr s) = (s \<noteq> [])"
| "truthy (CList xs) = (xs \<noteq> [])"
| "truthy (CDict kvs) = (kvs \<noteq> [])"

datatype 'a val =
    VNone
  | VBool bool
  | VStr string
  | VFloat "'a list"
  | VLong0 int
  | VLong "int list"
  | VLong2 "int list list"
  | VSlice nat nat
  | VList "'a val list"
  | VTuple "'a val list"

text \<open>
  The result of the acoustic model, with the component names of the docstring of
  \<^verbatim>\<open>inference\<close>, in its order.
\<close>

record 'a fs2_output =
  output' :: "'a val"
  postnet_output :: "'a val"
  p_predictions :: "'a val"
  e_predictions :: "'a val"
  log_d_predictions :: "'a val"
  d_rounded :: "'a val"
  src_masks :: "'a val"
  mel_masks :: "'a val"
  src_lens :: "'a val"
  mel_lens :: "'a val"

section \<open>Submodules\<close>

text \<open>
  The neural submodules are not part of the orchestration layer; each is a parameter,
  a function of its call arguments (the model state is fixed). The codebook module
  reads its embedding bank through a reference into the parameter store.
\<close>

type_synonym addr = nat

type_synonym 'a embedding = "'a val list \<Rightarrow> 'a val"

type_synonym 'a encoder = "'a val \<Rightarrow> 'a val \<Rightarrow> 'a val"

type_synonym 'a acoustic = "'a val list \<Rightarrow> (string \<times> 'a val) list \<Rightarrow> 'a fs2_output"

type_synonym 'a criterion = "'a val list \<Rightarrow> 'a fs2_output \<Rightarrow> 'a val list"

record 'a codebook =
  emb_banks :: addr
  attend :: "'a val \<Rightarrow> 'a val \<Rightarrow> 'a val \<times> 'a val"

datatype 'a module =
    EmbeddingModule "'a embedding"
  | TextEncoderModule "'a encoder"
  | AcousticModule "'a acoustic"
  | CodebookModule "'a codebook"
  | LossModule "'a criterion"

section \<open>State: gradient mode, call log, parameter store\<close>

datatype 'a event =
    EmbeddingCall bool "'a val list"
  | TextEncoderCall bool "'a val" "'a val"
  | MatchingCall bool addr "'a val"
  | ModelCall bool "'a val list" "(string \<times> 'a val) list"
  | LossCall bool "'a val list" "'a fs2_output"
  | LogDict "(string \<times> 'a val) list" bool cfg

record 'a state =
  grad_enabled :: bool
  trace :: "'a event list"
  store :: "addr \<Rightarrow> 'a val"
  next_addr :: addr

type_synonym ('a, 'r) exec = "'a state \<Rightarrow> (error + 'r) \<times> 'a state"

definition ret :: "'r \<Rightarrow> ('a, 'r) exec" where
  "ret x st = (Inr x, st)"

definition raise :: "error \<Rightarrow> ('a, 'r) exec" where
  "raise e st = (Inl e, st)"

definition lift :: "error + 'r \<Rightarrow> ('a, 'r) exec" where
  "lift r st = (r, st)"

definition bnd :: "('a, 'r) exec \<Rightarrow> ('r \<Rightarrow> ('a, 'q) exec) \<Rightarrow> ('a, 'q) exec" where
  "bnd m f st = (case m st of (Inl e, st') \<Rightarrow> (Inl e, st') | (Inr x, st') \<Rightarrow> f x st')"

text \<open>\<^verbatim>\<open>with torch.no_grad():\<close> switches gradient tracking off for its body and restores
  the previous mode on exit, whether the body returns or raises.\<close>

definition no_grad :: "('a, 'r) exec \<Rightarrow> ('a, 'r) exec" where
  "no_grad body st =
     (let prev = grad_enabled st;
          (r, st') = body (st\<lparr>grad_enabled := False\<rparr>)
      in (r, st'\<lparr>grad_enabled := prev\<rparr>))"

text \<open>\<^verbatim>\<open>nn.Parameter(t)\<close>: a fresh parameter object holding \<open>t\<close>.\<close>

definition new_parameter :: "'a val \<Rightarrow> ('a, addr) exec" where
  "new_parameter v st =
     (Inr (next_addr st),
      st\<lparr>store := (store st)(next_addr st := v), next_addr := Suc (next_addr st)\<rparr>)"

subsection \<open>Python sequence and dictionary access\<close>

definition py_index :: "'x list \<Rightarrow> nat \<Rightarrow> error + 'x" where
  "py_index xs i = (if i < length xs then Inr (xs ! i) else Inl IndexError)"

definition py_last :: "'x list \<Rightarrow> error + 'x" where
  "py_last xs = (if xs = [] then Inl IndexError else Inr (last xs))"

definition dict_get :: "(string \<times> 'x) list \<Rightarrow> string \<Rightarrow> error + 'x" where
  "dict_get d k = (case map_of d k of None \<Rightarrow> Inl (KeyError k) | Some v \<Rightarrow> Inr v)"

text \<open>
  \<^verbatim>\<open>max(t)\<close> of a one-dimensional integer tensor (the only tensor it is applied to here)
  is the zero-dimensional tensor of its greatest element; \<^verbatim>\<open>max\<close> of an empty sequence
  raises ValueError.
\<close>

fun tensor_max :: "'a val \<Rightarrow> error + 'a val" where
  "tensor_max (VLong []) = Inl ValueError"
| "tensor_max (VLong (x # xs)) = Inr (VLong0 (fold max xs x))"
| "tensor_max _ = Inl TypeError"

text \<open>The decimal numeral of a natural number, as an f-string prints \<^verbatim>\<open>{len(batch)}\<close>.\<close>

definition digit_char :: "nat \<Rightarrow> char" where
  "digit_char d = char_of (of_char (CHR ''0'') + d)"

fun string_of_nat :: "nat \<Rightarrow> string" where
  "string_of_nat n =
     (if n < 10 then [digit_char n] else string_of_nat (n div 10) @ [digit_char (n mod 10)])"

section \<open>The system object\<close>

text \<open>
  The attributes \<^verbatim>\<open>self.model_config\<close>, \<^verbatim>\<open>self.data_configs\<close> and \<^verbatim>\<open>self.train_config\<close>
  exist before \<^verbatim>\<open>build_configs\<close> runs; \<^verbatim>\<open>build_configs\<close> adds \<^verbatim>\<open>spk_config\<close> and \<^verbatim>\<open>bs\<close>;
  \<^verbatim>\<open>build_model\<close> adds the submodules. \<^verbatim>\<open>shared_emb_banks\<close> and \<^verbatim>\<open>text_matching\<close> are
  assigned only under \<^verbatim>\<open>if self.use_matching\<close>: \<open>None\<close> is the attribute never assigned.
\<close>

record base =
  model_config :: cfg
  data_configs :: cfg
  train_config :: cfg

record configured = base +
  spk_config :: cfg
  bs :: cfg

record 'a system = configured +
  use_matching :: cfg
  embedding_model :: "'a embedding"
  text_encoder :: "'a encoder"
  model :: "'a acoustic"
  loss_func :: "'a criterion"
  shared_emb_banks :: "addr option"
  text_matching :: "'a codebook option"

text \<open>
  What the layer imports from the rest of the repository, taken as parameters: the
  language table \<^verbatim>\<open>text.define.LANG_NAME2ID\<close>, the helpers of \<^verbatim>\<open>lightning.build\<close>, the
  constructors of the submodules, and the draw of \<^verbatim>\<open>torch.randn\<close>.
\<close>

record 'a env =
  LANG_NAME2ID :: "(string \<times> int) list"
  build_all_speakers :: "cfg \<Rightarrow> cfg"
  build_id2symbols :: "cfg \<Rightarrow> cfg"
  MultilingualEmbedding :: "cfg \<Rightarrow> cfg \<Rightarrow> 'a embedding"
  TextEncoder :: "cfg \<Rightarrow> 'a encoder"
  FastSpeech2 :: "cfg \<Rightarrow> cfg \<Rightarrow> 'a acoustic"
  FastSpeech2Loss :: "cfg \<Rightarrow> 'a criterion"
  SoftMultiAttCodebook :: "cfg \<Rightarrow> cfg \<Rightarrow> cfg \<Rightarrow> ('a, 'a codebook) exec"
  randn :: "cfg \<Rightarrow> cfg \<Rightarrow> 'a val"

subsection \<open>Calling a submodule\<close>

text \<open>Each call is logged with the gradient mode it runs under and its arguments.\<close>

definition call_embedding :: "'a system \<Rightarrow> 'a val list \<Rightarrow> ('a, 'a val) exec" where
  "call_embedding self args st =
     (Inr (embedding_model self args),
      st\<lparr>trace := trace st @ [EmbeddingCall (grad_enabled st) args]\<rparr>)"

definition call_text_encoder :: "'a system \<Rightarrow> 'a val \<Rightarrow> 'a val \<Rightarrow> ('a, 'a val) exec" where
  "call_text_encoder self x lengths st =
     (Inr (text_encoder self x lengths),
      st\<lparr>trace := trace st @ [TextEncoderCall (grad_enabled st) x lengths]\<rparr>)"

definition call_text_matching :: "'a system \<Rightarrow> 'a val \<Rightarrow> ('a, 'a val \<times> 'a val) exec" where
  "call_text_matching self x st =
     (case text_matching self of
        None \<Rightarrow> (Inl (AttributeError ''text_matching''), st)
      | Some cb \<Rightarrow>
          (Inr (attend cb (store st (emb_banks cb)) x),
           st\<lparr>trace := trace st @ [MatchingCall (grad_enabled st) (emb_banks cb) x]\<rparr>))"

definition call_model ::
  "'a system \<Rightarrow> 'a val list \<Rightarrow> (string \<times> 'a val) list \<Rightarrow> ('a, 'a fs2_output) exec" where
  "call_model self args kwargs st =
     (Inr (model self args kwargs),
      st\<lparr>trace := trace st @ [ModelCall (grad_enabled st) args kwargs]\<rparr>)"

definition call_loss_func ::
  "'a system \<Rightarrow> 'a val list \<Rightarrow> 'a fs2_output \<Rightarrow> ('a, 'a val list) exec" where
  "call_loss_func self targets predictions st =
     (Inr (loss_func self targets predictions),
      st\<lparr>trace := trace st @ [LossCall (grad_enabled st) targets predictions]\<rparr>)"

definition log_dict :: "'a system \<Rightarrow> (string \<times> 'a val) list \<Rightarrow> ('a, unit) exec" where
  "log_dict self d st = (Inr (), st\<lparr>trace := trace st @ [LogDict d True (bs self)]\<rparr>)"

text \<open>
  The optional matching step shared by the three forward paths:
  \<^verbatim>\<open>if self.use_matching: emb_texts, _ = self.text_matching(emb_texts)\<close>.
\<close>

definition matching_step :: "'a system \<Rightarrow> 'a val \<Rightarrow> ('a, 'a val) exec" where
  "matching_step self emb_texts =
     (if truthy (use_matching self)
      then bnd (call_text_matching self emb_texts) (\<lambda>(emb_texts, _). ret emb_texts)
      else ret emb_texts)"

section \<open>Construction\<close>

definition build_configs :: "'a env \<Rightarrow> base \<Rightarrow> error + configured" where
  "build_configs env self =
     (case cfg_get (model_config self) ''speaker_emb'' of
        Inl e \<Rightarrow> Inl e
      | Inr emb_type \<Rightarrow>
          (let spk = CDict [(''emb_type'', emb_type),
                            (''speakers'', build_all_speakers env (data_configs self))]
           in case cfg_get (train_config self) ''optimizer'' of
                Inl e \<Rightarrow> Inl e
              | Inr opt \<Rightarrow>
                  (case cfg_get opt ''batch_size'' of
                     Inl e \<Rightarrow> Inl e
                   | Inr b \<Rightarrow>
                       Inr \<lparr>model_config = model_config self, data_configs = data_configs self,
                            train_config = train_config self, spk_config = spk, bs = b\<rparr>)))"

definition cfg_get2 :: "cfg \<Rightarrow> string \<Rightarrow> string \<Rightarrow> error + cfg" where
  "cfg_get2 c k1 k2 = (case cfg_get c k1 of Inl e \<Rightarrow> Inl e | Inr d \<Rightarrow> cfg_get d k2)"

definition build_model :: "'a env \<Rightarrow> configured \<Rightarrow> ('a, 'a system) exec" where
  "build_model env self =
     bnd (lift (cfg_get (model_config self) ''use_matching'')) (\<lambda>use_matching'.
     bnd (lift (cfg_get2 (model_config self) ''transformer'' ''encoder_hidden'')) (\<lambda>encoder_dim.
     bnd (lift (cfg_get (model_config self) ''text_encoder'')) (\<lambda>text_encoder_config.
     let sys = \<lparr>model_config = model_config self, data_configs = data_configs self,
                train_config = train_config self, spk_config = spk_config self, bs = bs self,
                use_matching = use_matching',
                embedding_model =
                  MultilingualEmbedding env (build_id2symbols env (data_configs self)) encoder_dim,
                text_encoder = TextEncoder env text_encoder_config,
                model = FastSpeech2 env (model_config self) (spk_config self),
                loss_func = FastSpeech2Loss env (model_config self),
                shared_emb_banks = None, text_matching = None\<rparr>
     in if truthy use_matching' then
          bnd (lift (cfg_get2 (model_config self) ''matching'' ''codebook_size'')) (\<lambda>size1.
          bnd (lift (cfg_get2 (model_config self) ''matching'' ''dim'')) (\<lambda>dim1.
          bnd (new_parameter (randn env size1 dim1)) (\<lambda>shared.
          bnd (lift (cfg_get2 (model_config self) ''matching'' ''codebook_size'')) (\<lambda>codebook_size.
          bnd (lift (cfg_get2 (model_config self) ''matching'' ''dim'')) (\<lambda>embed_dim.
          bnd (lift (cfg_get2 (model_config self) ''matching'' ''nhead'')) (\<lambda>num_heads.
          bnd (SoftMultiAttCodebook env codebook_size embed_dim num_heads) (\<lambda>cb.
          ret (sys\<lparr>shared_emb_banks := Some shared,
                     text_matching := Some (cb\<lparr>emb_banks := shared\<rparr>)\<rparr>))))))))
        else ret sys)))"

definition build_optimized_model :: "'a system \<Rightarrow> error + 'a module list" where
  "build_optimized_model self =
     (let opt_modules = [TextEncoderModule (text_encoder self), AcousticModule (model self),
                         EmbeddingModule (embedding_model self)]
      in if truthy (use_matching self) then
           (case text_matching self of
              None \<Rightarrow> Inl (AttributeError ''text_matching'')
            | Some cb \<Rightarrow> Inr (opt_modules @ [CodebookModule cb]))
         else Inr opt_modules)"

section \<open>The per-batch computation\<close>

text \<open>
  A batch is a Python sequence. \<^verbatim>\<open>batch[i]\<close> raises IndexError out of range; the slices
  \<^verbatim>\<open>batch[4:]\<close>, \<^verbatim>\<open>batch[:-1]\<close> and \<^verbatim>\<open>batch[4:6]\<close> never raise. The arguments
  \<^verbatim>\<open>batch_idx\<close> and \<^verbatim>\<open>train\<close> are accepted and not read.
\<close>

definition common_step ::
  "'a system \<Rightarrow> 'a val list \<Rightarrow> nat \<Rightarrow> bool \<Rightarrow> ('a, (string \<times> 'a val) list \<times> 'a fs2_output) exec"
  where
  "common_step self batch batch_idx train =
     bnd (lift (py_index batch 3)) (\<lambda>batch3.
     bnd (call_embedding self [batch3]) (\<lambda>emb_texts.
     bnd (lift (py_index batch 4)) (\<lambda>batch4.
     bnd (call_text_encoder self emb_texts batch4) (\<lambda>emb_texts.
     bnd (matching_step self emb_texts) (\<lambda>emb_texts.
     bnd (lift (py_index batch 2)) (\<lambda>batch2.
     bnd (call_model self (batch2 # emb_texts # drop 4 batch) []) (\<lambda>predictions.
     bnd (call_loss_func self (butlast batch) predictions) (\<lambda>loss.
     bnd (lift (py_index loss 0)) (\<lambda>loss0.
     bnd (lift (py_index loss 1)) (\<lambda>loss1.
     bnd (lift (py_index loss 2)) (\<lambda>loss2.
     bnd (lift (py_index loss 3)) (\<lambda>loss3.
     bnd (lift (py_index loss 4)) (\<lambda>loss4.
     bnd (lift (py_index loss 5)) (\<lambda>loss5.
     ret ([(''Total Loss'', loss0),
           (''Mel Loss'', loss1),
           (''Mel-Postnet Loss'', loss2),
           (''Pitch Loss'', loss3),
           (''Energy Loss'', loss4),
           (''Duration Loss'', loss5)], predictions)))))))))))))))"

definition synth_step :: "'a system \<Rightarrow> 'a val list \<Rightarrow> nat \<Rightarrow> ('a, 'a fs2_output) exec" where
  "synth_step self batch batch_idx =
     bnd (lift (py_index batch 3)) (\<lambda>batch3.
     bnd (call_embedding self [batch3]) (\<lambda>emb_texts.
     bnd (lift (py_index batch 4)) (\<lambda>batch4.
     bnd (call_text_encoder self emb_texts batch4) (\<lambda>emb_texts.
     bnd (matching_step self emb_texts) (\<lambda>emb_texts.
     bnd (lift (py_index batch 2)) (\<lambda>batch2.
     bnd (lift (py_last batch)) (\<lambda>batch_last.
     call_model self (batch2 # emb_texts # take 2 (drop 4 batch))
       [(''lang_args'', batch_last), (''average_spk_emb'', VBool True)])))))))"

definition batch_start_check :: "'a val list \<Rightarrow> ('a, unit) exec" where
  "batch_start_check batch =
     (if length batch = 13 then ret ()
      else raise (AssertionError
             (''data with 13 elements, but get '' @ string_of_nat (length batch))))"

definition on_train_batch_start :: "'a system \<Rightarrow> 'a val list \<Rightarrow> nat \<Rightarrow> nat \<Rightarrow> ('a, unit) exec" where
  "on_train_batch_start self batch batch_idx dataloader_idx = batch_start_check batch"

definition on_validation_batch_start ::
  "'a system \<Rightarrow> 'a val list \<Rightarrow> nat \<Rightarrow> nat \<Rightarrow> ('a, unit) exec" where
  "on_validation_batch_start self batch batch_idx dataloader_idx = batch_start_check batch"

text \<open>
  The dictionary a step returns: keys \<^verbatim>\<open>'loss'\<close>, \<^verbatim>\<open>'losses'\<close>, \<^verbatim>\<open>'output'\<close>, \<^verbatim>\<open>'_batch'\<close> and,
  from validation only, \<^verbatim>\<open>'synth'\<close>. \<^verbatim>\<open>v.item()\<close> reads the scalar a loss tensor holds;
  a scalar tensor and its scalar are the same value here.
\<close>

record 'a step_result =
  res_loss :: "'a val"
  res_losses :: "(string \<times> 'a val) list"
  res_output :: "'a fs2_output"
  res_batch :: "'a val list"
  res_synth :: "'a fs2_output option"

definition prefix_keys :: "string \<Rightarrow> (string \<times> 'x) list \<Rightarrow> (string \<times> 'x) list" where
  "prefix_keys p d = map (\<lambda>(k, v). (p @ k, v)) d"

definition training_step :: "'a system \<Rightarrow> 'a val list \<Rightarrow> nat \<Rightarrow> ('a, 'a step_result) exec" where
  "training_step self batch batch_idx =
     bnd (common_step self batch batch_idx True) (\<lambda>(train_loss_dict, predictions).
     bnd (log_dict self (prefix_keys ''Train/'' train_loss_dict)) (\<lambda>_.
     bnd (lift (dict_get train_loss_dict ''Total Loss'')) (\<lambda>total.
     ret \<lparr>res_loss = total, res_losses = train_loss_dict, res_output = predictions,
          res_batch = batch, res_synth = None\<rparr>)))"

definition validation_step :: "'a system \<Rightarrow> 'a val list \<Rightarrow> nat \<Rightarrow> ('a, 'a step_result) exec" where
  "validation_step self batch batch_idx =
     bnd (common_step self batch batch_idx False) (\<lambda>(val_loss_dict, predictions).
     bnd (synth_step self batch batch_idx) (\<lambda>synth_predictions.
     bnd (log_dict self (prefix_keys ''Val/'' val_loss_dict)) (\<lambda>_.
     bnd (lift (dict_get val_loss_dict ''Total Loss'')) (\<lambda>total.
     ret \<lparr>res_loss = total, res_losses = val_loss_dict, res_output = predictions,
          res_batch = batch, res_synth = Some synth_predictions\<rparr>))))"

section \<open>Single-utterance inference\<close>

text \<open>
  \<^verbatim>\<open>spk_ref_mel_slice\<close> is a two-dimensional array, given by its frames, so that
  \<^verbatim>\<open>spk_ref_mel_slice.shape[0]\<close> is their number; \<^verbatim>\<open>text\<close> is a one-dimensional array of
  token ids, so that \<^verbatim>\<open>len(text)\<close> is its length and
  \<^verbatim>\<open>torch.from_numpy(text).long().unsqueeze(0)\<close> is the one-row tensor holding it. Moving a
  tensor to the device does not change it.
\<close>

definition inference ::
  "'a env \<Rightarrow> 'a system \<Rightarrow> 'a list \<Rightarrow> int list \<Rightarrow> string \<Rightarrow> string option \<Rightarrow> ('a, 'a fs2_output) exec"
  where
  "inference env self spk_ref_mel_slice text symbol_id lang_id =
     (let spk_args = VTuple [VFloat spk_ref_mel_slice,
                             VList [VSlice 0 (length spk_ref_mel_slice)]]
      in bnd (case lang_id of
                Some l \<Rightarrow> bnd (lift (dict_get (LANG_NAME2ID env) l)) (\<lambda>i. ret (VLong [i]))
              | None \<Rightarrow> ret VNone) (\<lambda>lang_args.
         let texts = VLong2 [text];
             src_lens = VLong [int (length text)]
         in bnd (lift (tensor_max src_lens)) (\<lambda>max_src_len.
            no_grad (
              bnd (call_embedding self [texts, VStr symbol_id]) (\<lambda>emb_texts.
              bnd (call_text_encoder self emb_texts src_lens) (\<lambda>emb_texts.
              bnd (matching_step self emb_texts) (\<lambda>emb_texts.
              call_model self [spk_args, emb_texts, src_lens, max_src_len]
                [(''lang_args'', lang_args), (''average_spk_emb'', VBool True)])))))))"

section \<open>Notions used in the statements\<close>

text \<open>The part of the call log a run has added.\<close>

definition new_events :: "'a state \<Rightarrow> 'a state \<Rightarrow> 'a event list" where
  "new_events st st' = drop (length (trace st)) (trace st')"

fun is_matching_call :: "'a event \<Rightarrow> bool" where
  "is_matching_call (MatchingCall g a x) = True"
| "is_matching_call _ = False"

fun is_forward_call :: "'a event \<Rightarrow> bool" where
  "is_forward_call (LogDict d s b) = False"
| "is_forward_call _ = True"

fun event_grad :: "'a event \<Rightarrow> bool" where
  "event_grad (EmbeddingCall g args) = g"
| "event_grad (TextEncoderCall g x l) = g"
| "event_grad (MatchingCall g a x) = g"
| "event_grad (ModelCall g args kwargs) = g"
| "event_grad (LossCall g t p) = g"
| "event_grad (LogDict d s b) = False"

text \<open>
  A system as \<^verbatim>\<open>build_model\<close> leaves it: where \<^verbatim>\<open>use_matching\<close> is enabled, the matching
  module has been assigned.
\<close>

definition matching_ready :: "'a system \<Rightarrow> bool" where
  "matching_ready self = (truthy (use_matching self) \<longrightarrow> text_matching self \<noteq> None)"

text \<open>
  Reading and updating the embedding bank through either of its two owners. An update
  of a parameter object (by the optimizer) writes the store at its address.
\<close>

definition write_param :: "addr \<Rightarrow> 'a val \<Rightarrow> 'a state \<Rightarrow> 'a state" where
  "write_param a v st = st\<lparr>store := (store st)(a := v)\<rparr>"

definition system_bank :: "'a system \<Rightarrow> 'a state \<Rightarrow> 'a val option" where
  "system_bank self st = map_option (store st) (shared_emb_banks self)"

definition matching_bank :: "'a system \<Rightarrow> 'a state \<Rightarrow> 'a val option" where
  "matching_bank self st = map_option (\<lambda>cb. store st (emb_banks cb)) (text_matching self)"

definition update_system_bank :: "'a system \<Rightarrow> 'a val \<Rightarrow> 'a state \<Rightarrow> 'a state" where
  "update_system_bank self v st =
     (case shared_emb_banks self of None \<Rightarrow> st | Some a \<Rightarrow> write_param a v st)"

definition update_matching_bank :: "'a system \<Rightarrow> 'a val \<Rightarrow> 'a state \<Rightarrow> 'a state" where
  "update_matching_bank self v st =
     (case text_matching self of None \<Rightarrow> st | Some cb \<Rightarrow> write_param (emb_banks cb) v st)"

text \<open>
  What the optional matching step yields and logs on a system that is
  \<open>matching_ready\<close>, given the parameter store it reads the embedding bank from.
\<close>

definition matched_texts :: "'a system \<Rightarrow> (addr \<Rightarrow> 'a val) \<Rightarrow> 'a val \<Rightarrow> 'a val" where
  "matched_texts self banks x =
     (if truthy (use_matching self)
      then (case text_matching self of
              None \<Rightarrow> x
            | Some cb \<Rightarrow> fst (attend cb (banks (emb_banks cb)) x))
      else x)"

definition matching_events :: "'a system \<Rightarrow> bool \<Rightarrow> 'a val \<Rightarrow> 'a event list" where
  "matching_events self g x =
     (if truthy (use_matching self)
      then (case text_matching self of
              None \<Rightarrow> []
            | Some cb \<Rightarrow> [MatchingCall g (emb_banks cb) x])
      else [])"

section \<open>A concrete instance\<close>

text \<open>
  A small environment, configuration and state on which the definitions evaluate; the
  tensor slices are natural numbers.
\<close>

definition sample_output :: "nat val list \<Rightarrow> (string \<times> nat val) list \<Rightarrow> nat fs2_output" where
  "sample_output args kwargs =
     \<lparr>output' = VList args, postnet_output = VList (map snd kwargs),
      p_predictions = VFloat [1], e_predictions = VFloat [2], log_d_predictions = VFloat [3],
      d_rounded = VLong [4], src_masks = VBool False, mel_masks = VBool False,
      src_lens = VLong [int (length args)], mel_lens = VLong [5]\<rparr>"

definition sample_codebook :: "addr \<Rightarrow> nat codebook" where
  "sample_codebook a = \<lparr>emb_banks = a, attend = (\<lambda>bank x. (VTuple [bank, x], VNone))\<rparr>"

definition sample_env :: "nat env" where
  "sample_env =
     \<lparr>LANG_NAME2ID = [(''en'', 0), (''zh'', 1)],
      build_all_speakers = (\<lambda>c. CList []),
      build_id2symbols = (\<lambda>c. CDict []),
      MultilingualEmbedding = (\<lambda>id2symbols dim args. VList args),
      TextEncoder = (\<lambda>c x lengths. VTuple [x, lengths]),
      FastSpeech2 = (\<lambda>c spk. sample_output),
      FastSpeech2Loss = (\<lambda>c targets predictions. map VLong0 [15, 1, 2, 3, 4, 5]),
      SoftMultiAttCodebook =
        (\<lambda>codebook_size embed_dim num_heads.
           bnd (new_parameter (VFloat [])) (\<lambda>a. ret (sample_codebook a))),
      randn = (\<lambda>size1 dim1. VFloat [7, 8])\<rparr>"

definition sample_model_config :: "bool \<Rightarrow> cfg" where
  "sample_model_config m =
     CDict [(''use_matching'', CBool m),
            (''speaker_emb'', CStr ''table''),
            (''transformer'', CDict [(''encoder_hidden'', CInt 256)]),
            (''text_encoder'', CDict []),
            (''matching'', CDict [(''codebook_size'', CInt 4), (''dim'', CInt 256),
                                 (''nhead'', CInt 2)])]"

definition sample_self :: "bool \<Rightarrow> configured" where
  "sample_self m =
     \<lparr>model_config = sample_model_config m, data_configs = CList [],
      train_config = CDict [(''optimizer'', CDict [(''batch_size'', CInt 8)])],
      spk_config = CDict [(''emb_type'', CStr ''table''), (''speakers'', CList [])],
      bs = CInt 8\<rparr>"

definition sample_state :: "nat state" where
  "sample_state = \<lparr>grad_enabled = True, trace = [], store = (\<lambda>a. VNone), next_addr = 0\<rparr>"

definition sample_system :: "bool \<Rightarrow> nat system" where
  "sample_system m =
     \<lparr>model_config = sample_model_config m, data_configs = CList [],
      train_config = CDict [(''optimizer'', CDict [(''batch_size'', CInt 8)])],
      spk_config = CDict [(''emb_type'', CStr ''table''), (''speakers'', CList [])],
      bs = CInt 8,
      use_matching = CBool m,
      embedding_model = (\<lambda>args. VList args),
      text_encoder = (\<lambda>x lengths. VTuple [x, lengths]),
      model = sample_output,
      loss_func = (\<lambda>targets predictions. map VLong0 [15, 1, 2, 3, 4, 5]),
      shared_emb_banks = (if m then Some 0 else None),
      text_matching = (if m then Some (sample_codebook 0) else None)\<rparr>"

definition sample_batch :: "nat val list" where
  "sample_batch = map (\<lambda>i. VLong [i]) [0, 1, 2, 3, 4, 5, 6, 7, 8, 9, 10, 11, 12]"

text \<open>The state \<^verbatim>\<open>build_model\<close> leaves when it starts from \<open>sample_state\<close> with matching on.\<close>

definition sample_built_state :: "nat state" where
  "sample_built_state =
     \<lparr>grad_enabled = True, trace = [],
      store = (\<lambda>a. if a = 0 then VFloat [7, 8] else if a = 1 then VFloat [] else VNone),
      next_addr = 2\<rparr>"

declare string_of_nat.simps [simp del]

section \<open>Basic facts\<close>

lemmas exec_defs = ret_def raise_def lift_def bnd_def

lemmas call_defs = call_embedding_def call_text_encoder_def call_model_def call_loss_func_def

lemma string_of_nat_12: "string_of_nat 12 = ''12''"
  by code_simp

lemma string_of_nat_14: "string_of_nat 14 = ''14''"
  by code_simp

lemma length_sample_batch: "length sample_batch = 13"
  by (simp add: sample_batch_def)

lemma matching_ready_sample: "matching_ready (sample_system m)"
  by (simp add: matching_ready_def sample_system_def)

lemma dict_get_total:
  "map fst d = ''Total Loss'' # ks \<Longrightarrow> \<exists>v. dict_get d ''Total Loss'' = Inr v"
  by (cases d) (auto simp add: dict_get_def)

subsection \<open>The optional matching step\<close>

lemma matching_step_off:
  "\<not> truthy (use_matching self) \<Longrightarrow> matching_step self x st = (Inr x, st)"
  by (simp add: matching_step_def ret_def)

lemma matching_step_on:
  "truthy (use_matching self) \<Longrightarrow> text_matching self = Some cb \<Longrightarrow>
   matching_step self x st =
     (Inr (fst (attend cb (store st (emb_banks cb)) x)),
      st\<lparr>trace := trace st @ [MatchingCall (grad_enabled st) (emb_banks cb) x]\<rparr>)"
  by (simp add: matching_step_def call_text_matching_def exec_defs split: prod.splits)

lemma matching_step_missing:
  "truthy (use_matching self) \<Longrightarrow> text_matching self = None \<Longrightarrow>
   matching_step self x st = (Inl (AttributeError ''text_matching''), st)"
  by (simp add: matching_step_def call_text_matching_def exec_defs)

lemma matching_step_ready:
  "matching_ready self \<Longrightarrow>
   matching_step self x st =
     (Inr (matched_texts self (store st) x),
      st\<lparr>trace := trace st @ matching_events self (grad_enabled st) x\<rparr>)"
  by (cases "truthy (use_matching self)")
     (auto simp add: matching_ready_def matched_texts_def matching_events_def
        matching_step_off matching_step_on)

subsection \<open>What \<^verbatim>\<open>build_model\<close> returns\<close>

lemma build_model_Inr:
  assumes "build_model env self st = (Inr sys, st')"
  shows "cfg_get (model_config self) ''use_matching'' = Inr (use_matching sys)"
    and "\<not> truthy (use_matching sys) \<Longrightarrow>
           st' = st \<and> shared_emb_banks sys = None \<and> text_matching sys = None"
    and "truthy (use_matching sys) \<Longrightarrow>
           \<exists>cb. shared_emb_banks sys = Some (next_addr st) \<and> text_matching sys = Some cb \<and>
                emb_banks cb = next_addr st"
  using assms
  by (auto simp add: build_model_def exec_defs Let_def new_parameter_def
      split: sum.splits if_splits prod.splits)

lemma build_model_matching_ready:
  "build_model env self st = (Inr sys, st') \<Longrightarrow> matching_ready sys"
  using build_model_Inr(3) [of env self st sys st']
  by (auto simp add: matching_ready_def)

lemma build_model_sample_off:
  "build_model sample_env (sample_self False) sample_state =
     (Inr (sample_system False), sample_state)"
  by (simp add: build_model_def exec_defs cfg_get2_def sample_env_def sample_self_def
      sample_model_config_def sample_system_def)

lemma build_model_sample_on:
  "build_model sample_env (sample_self True) sample_state =
     (Inr (sample_system True), sample_built_state)"
  by (simp add: build_model_def exec_defs cfg_get2_def sample_env_def sample_self_def
      sample_model_config_def sample_system_def new_parameter_def sample_state_def
      sample_codebook_def sample_built_state_def fun_eq_iff)

subsection \<open>The forward paths on a ready system\<close>

lemma common_step_forward:
  assumes len: "4 < length batch" and ready: "matching_ready self"
  shows "(let g = grad_enabled st;
              e1 = embedding_model self [batch ! 3];
              e2 = text_encoder self e1 (batch ! 4);
              e3 = matched_texts self (store st) e2;
              out = model self (batch ! 2 # e3 # drop 4 batch) [];
              loss = loss_func self (butlast batch) out
          in common_step self batch i t st =
               (if 6 \<le> length loss
                then Inr ([(''Total Loss'', loss ! 0), (''Mel Loss'', loss ! 1),
                           (''Mel-Postnet Loss'', loss ! 2), (''Pitch Loss'', loss ! 3),
                           (''Energy Loss'', loss ! 4), (''Duration Loss'', loss ! 5)], out)
                else Inl IndexError,
                st\<lparr>trace := trace st @
                      [EmbeddingCall g [batch ! 3], TextEncoderCall g e1 (batch ! 4)] @
                      matching_events self g e2 @
                      [ModelCall g (batch ! 2 # e3 # drop 4 batch) [],
                       LossCall g (butlast batch) out]\<rparr>))"
  using len
  by (simp add: common_step_def exec_defs call_defs matching_step_ready [OF ready]
      py_index_def Let_def)

lemma synth_step_forward:
  assumes len: "4 < length batch" and ready: "matching_ready self"
  shows "(let g = grad_enabled st;
              e1 = embedding_model self [batch ! 3];
              e2 = text_encoder self e1 (batch ! 4);
              e3 = matched_texts self (store st) e2;
              args = batch ! 2 # e3 # take 2 (drop 4 batch);
              kwargs = [(''lang_args'', last batch), (''average_spk_emb'', VBool True)]
          in synth_step self batch i st =
               (Inr (model self args kwargs),
                st\<lparr>trace := trace st @
                      [EmbeddingCall g [batch ! 3], TextEncoderCall g e1 (batch ! 4)] @
                      matching_events self g e2 @ [ModelCall g args kwargs]\<rparr>))"
  using len
  by (auto simp add: synth_step_def exec_defs call_defs matching_step_ready [OF ready]
      py_index_def py_last_def Let_def)

lemma inference_forward:
  assumes ready: "matching_ready self"
    and lang: "lang_id = None \<and> lang_args = VNone \<or>
               (\<exists>l i. lang_id = Some l \<and> map_of (LANG_NAME2ID env) l = Some i \<and>
                      lang_args = VLong [i])"
  shows "(let n = int (length text);
              texts = VLong2 [text];
              e1 = embedding_model self [texts, VStr symbol_id];
              e2 = text_encoder self e1 (VLong [n]);
              e3 = matched_texts self (store st) e2;
              args = [VTuple [VFloat spk_ref_mel_slice,
                              VList [VSlice 0 (length spk_ref_mel_slice)]],
                      e3, VLong [n], VLong0 n];
              kwargs = [(''lang_args'', lang_args), (''average_spk_emb'', VBool True)]
          in inference env self spk_ref_mel_slice text symbol_id lang_id st =
               (Inr (model self args kwargs),
                st\<lparr>trace := trace st @
                      [EmbeddingCall False [texts, VStr symbol_id],
                       TextEncoderCall False e1 (VLong [n])] @
                      matching_events self False e2 @ [ModelCall False args kwargs]\<rparr>))"
  using lang
  by (auto simp add: inference_def exec_defs call_defs matching_step_ready [OF ready]
      no_grad_def dict_get_def Let_def)

lemma inference_grad:
  "list_all (\<lambda>e. \<not> event_grad e)
     (new_events st (snd (inference env self spk_ref_mel_slice text symbol_id lang_id st))) \<and>
   grad_enabled (snd (inference env self spk_ref_mel_slice text symbol_id lang_id st)) =
     grad_enabled st"
  by (cases "truthy (use_matching self)"; cases "text_matching self")
     (auto simp add: inference_def exec_defs call_defs matching_step_off matching_step_on
        matching_step_missing no_grad_def dict_get_def Let_def new_events_def
        split: option.splits)

lemma inference_model_calls:
  "ModelCall g args kwargs \<in>
     set (new_events st (snd (inference env self spk_ref_mel_slice text symbol_id None st))) \<Longrightarrow>
   kwargs = [(''lang_args'', VNone), (''average_spk_emb'', VBool True)]"
  by (cases "truthy (use_matching self)"; cases "text_matching self")
     (auto simp add: inference_def exec_defs call_defs matching_step_off matching_step_on
        matching_step_missing no_grad_def Let_def new_events_def)

lemma inference_KeyError:
  "fst (inference env self spk_ref_mel_slice text symbol_id lang_id st) = Inl (KeyError k) \<Longrightarrow>
   lang_id = Some k \<and> map_of (LANG_NAME2ID env) k = None"
  by (cases "truthy (use_matching self)"; cases "text_matching self")
     (auto simp add: inference_def exec_defs call_defs matching_step_off matching_step_on
        matching_step_missing no_grad_def Let_def dict_get_def split: option.splits)

subsection \<open>When \<^verbatim>\<open>common_step\<close> returns\<close>

lemma common_step_train_flag:
  "common_step self batch i t = common_step self batch j t'"
  by (simp add: common_step_def)

lemma common_step_Inr:
  assumes "common_step self batch i t st = (Inr (d, out), st')"
  shows "4 < length batch" and "matching_ready self"
    and "map fst d = [''Total Loss'', ''Mel Loss'', ''Mel-Postnet Loss'', ''Pitch Loss'',
                      ''Energy Loss'', ''Duration Loss'']"
    and "store st' = store st" and "grad_enabled st' = grad_enabled st"
proof -
  show len: "4 < length batch"
    using assms
    by (cases "3 < length batch"; cases "4 < length batch")
       (auto simp add: common_step_def exec_defs call_defs py_index_def)
  show ready: "matching_ready self"
  proof (rule ccontr)
    assume "\<not> matching_ready self"
    then have "truthy (use_matching self)" "text_matching self = None"
      by (auto simp add: matching_ready_def)
    with assms len show False
      by (simp add: common_step_def exec_defs call_defs py_index_def matching_step_missing)
  qed
  from common_step_forward [OF len ready, of st i t] assms
  show "map fst d = [''Total Loss'', ''Mel Loss'', ''Mel-Postnet Loss'', ''Pitch Loss'',
                      ''Energy Loss'', ''Duration Loss'']"
    and "store st' = store st" and "grad_enabled st' = grad_enabled st"
    by (auto simp add: Let_def split: if_splits)
qed

text \<open>
  Whenever \<^verbatim>\<open>common_step\<close> returns, the keys of its loss dictionary are the six fixed
  names, in the order of the dictionary display.
\<close>

lemma common_step_loss_keys:
  "common_step self batch i t st = (Inr (d, out), st') \<Longrightarrow>
   set (map fst d) = {''Total Loss'', ''Mel Loss'', ''Mel-Postnet Loss'', ''Pitch Loss'',
                      ''Energy Loss'', ''Duration Loss''} \<and> distinct (map fst d)"
  by (simp add: common_step_Inr(3))

subsection \<open>The forward paths with matching off\<close>

lemma common_step_off:
  assumes "\<not> truthy (use_matching self)"
  shows "filter is_matching_call (trace (snd (common_step self batch i t s))) =
           filter is_matching_call (trace s) \<and>
         fst (common_step self batch i t s) \<noteq> Inl (AttributeError ''text_matching'')"
  using assms
  by (simp add: common_step_def exec_defs call_defs matching_step_off py_index_def)

lemma synth_step_off:
  assumes "\<not> truthy (use_matching self)"
  shows "filter is_matching_call (trace (snd (synth_step self batch i s))) =
           filter is_matching_call (trace s) \<and>
         fst (synth_step self batch i s) \<noteq> Inl (AttributeError ''text_matching'')"
  using assms
  by (simp add: synth_step_def exec_defs call_defs matching_step_off py_index_def py_last_def)

lemma inference_off:
  assumes "\<not> truthy (use_matching self)"
  shows "filter is_matching_call
           (trace (snd (inference env self spk_ref_mel_slice text symbol_id lang_id s))) =
           filter is_matching_call (trace s) \<and>
         fst (inference env self spk_ref_mel_slice text symbol_id lang_id s) \<noteq>
           Inl (AttributeError ''text_matching'')"
  using assms
  by (auto simp add: inference_def exec_defs call_defs matching_step_off no_grad_def dict_get_def
      Let_def split: option.splits)

section \<open>The batch-start hooks\<close>

text \<open>
  C1. For every batch whose element count is not 13, \<^verbatim>\<open>on_train_batch_start\<close> and
  \<^verbatim>\<open>on_validation_batch_start\<close> raise the assertion error
  \<^verbatim>\<open>data with 13 elements, but get <n>\<close> and leave the state as it was: no forward call
  has been logged, nothing has been written. For every batch of exactly 13 elements both
  hooks return normally, again with the state as it was. The batch is an argument the
  hooks only measure; they return no batch and write none.
\<close>

theorem batch_start_arity_check:
  "(length batch \<noteq> 13 \<longrightarrow>
      on_train_batch_start self batch batch_idx dataloader_idx st =
        (Inl (AssertionError
               (''data with 13 elements, but get '' @ string_of_nat (length batch))), st) \<and>
      on_validation_batch_start self batch batch_idx dataloader_idx st =
        (Inl (AssertionError
               (''data with 13 elements, but get '' @ string_of_nat (length batch))), st)) \<and>
   (length batch = 13 \<longrightarrow>
      on_train_batch_start self batch batch_idx dataloader_idx st = (Inr (), st) \<and>
      on_validation_batch_start self batch batch_idx dataloader_idx st = (Inr (), st))"
  by (simp add: on_train_batch_start_def on_validation_batch_start_def batch_start_check_def
      ret_def raise_def)

theorem batch_start_arity_check_witness:
  "on_train_batch_start (sample_system True) (butlast sample_batch) 0 0 sample_state =
     (Inl (AssertionError ''data with 13 elements, but get 12''), sample_state) \<and>
   on_validation_batch_start (sample_system True) (VNone # sample_batch) 0 0 sample_state =
     (Inl (AssertionError ''data with 13 elements, but get 14''), sample_state) \<and>
   on_train_batch_start (sample_system True) sample_batch 0 0 sample_state =
     (Inr (), sample_state) \<and>
   on_validation_batch_start (sample_system True) sample_batch 0 0 sample_state =
     (Inr (), sample_state)"
  using batch_start_arity_check [of "butlast sample_batch" "sample_system True" 0 0 sample_state]
    batch_start_arity_check [of "VNone # sample_batch" "sample_system True" 0 0 sample_state]
    batch_start_arity_check [of sample_batch "sample_system True" 0 0 sample_state]
  by (simp add: length_sample_batch string_of_nat_12 string_of_nat_14)

section \<open>Training and validation share the forward pipeline\<close>

text \<open>
  C3. For every system, batch and state, the loss dictionary \<^verbatim>\<open>training_step\<close> returns
  under \<^verbatim>\<open>'losses'\<close> and the one \<^verbatim>\<open>validation_step\<close> returns are the same, and a step
  that fails in one fails with the same error in the other: both are the loss dictionary
  of \<^verbatim>\<open>common_step\<close> on the same inputs, which does not read its \<^verbatim>\<open>train\<close> flag (nor the
  batch index).
\<close>

theorem steps_share_losses:
  "map_sum id res_losses (fst (training_step self batch i st)) =
     map_sum id res_losses (fst (validation_step self batch j st)) \<and>
   map_sum id res_losses (fst (training_step self batch i st)) =
     map_sum id fst (fst (common_step self batch i True st)) \<and>
   common_step self batch i True st = common_step self batch j False st"
proof -
  have flag: "common_step self batch j False st = common_step self batch i True st"
    by (rule common_step_train_flag [THEN fun_cong])
  obtain r st1 where c: "common_step self batch i True st = (r, st1)"
    by (cases "common_step self batch i True st")
  show ?thesis
  proof (cases r)
    case (Inl e)
    with c flag show ?thesis
      by (simp add: training_step_def validation_step_def exec_defs)
  next
    case (Inr p)
    obtain d out where p: "p = (d, out)"
      by (cases p)
    from c Inr p have c': "common_step self batch i True st = (Inr (d, out), st1)"
      by simp
    from common_step_Inr [OF c'] have len: "4 < length batch" and ready: "matching_ready self"
      and keys: "map fst d = [''Total Loss'', ''Mel Loss'', ''Mel-Postnet Loss'',
                   ''Pitch Loss'', ''Energy Loss'', ''Duration Loss'']"
      by simp_all
    from dict_get_total [OF keys] obtain v where v: "dict_get d ''Total Loss'' = Inr v" ..
    from synth_step_forward [OF len ready, of st1 j]
    obtain so st2 where s: "synth_step self batch j st1 = (Inr so, st2)"
      by (auto simp add: Let_def)
    from c' flag v s show ?thesis
      by (simp add: training_step_def validation_step_def exec_defs log_dict_def)
  qed
qed

lemma common_step_sample:
  "fst (common_step (sample_system True) sample_batch 0 True sample_state) =
     Inr ([(''Total Loss'', VLong0 15), (''Mel Loss'', VLong0 1),
           (''Mel-Postnet Loss'', VLong0 2), (''Pitch Loss'', VLong0 3),
           (''Energy Loss'', VLong0 4), (''Duration Loss'', VLong0 5)],
          sample_output
            (VLong [2] #
             VTuple [VNone, VTuple [VList [VLong [3]], VLong [4]]] #
             map (\<lambda>i. VLong [i]) [4, 5, 6, 7, 8, 9, 10, 11, 12]) [])"
  using common_step_forward [where batch = sample_batch and self = "sample_system True" and
      st = sample_state and i = 0 and t = True]
  by (simp add: Let_def length_sample_batch matching_ready_sample)
     (simp add: sample_batch_def sample_system_def sample_state_def matched_texts_def
        sample_codebook_def)

theorem steps_share_losses_witness:
  "map_sum id res_losses (fst (training_step (sample_system True) sample_batch 0 sample_state)) =
     Inr [(''Total Loss'', VLong0 15), (''Mel Loss'', VLong0 1),
          (''Mel-Postnet Loss'', VLong0 2), (''Pitch Loss'', VLong0 3),
          (''Energy Loss'', VLong0 4), (''Duration Loss'', VLong0 5)] \<and>
   map_sum id res_losses (fst (validation_step (sample_system True) sample_batch 0 sample_state)) =
     Inr [(''Total Loss'', VLong0 15), (''Mel Loss'', VLong0 1),
          (''Mel-Postnet Loss'', VLong0 2), (''Pitch Loss'', VLong0 3),
          (''Energy Loss'', VLong0 4), (''Duration Loss'', VLong0 5)]"
proof -
  let ?d = "[(''Total Loss'', VLong0 15), (''Mel Loss'', VLong0 1),
          (''Mel-Postnet Loss'', VLong0 2), (''Pitch Loss'', VLong0 3),
          (''Energy Loss'', VLong0 4), (''Duration Loss'', VLong0 5)]"
  have c: "map_sum id fst (fst (common_step (sample_system True) sample_batch 0 True
             sample_state)) = Inr ?d"
    by (simp add: common_step_sample)
  from steps_share_losses [of "sample_system True" sample_batch 0 sample_state 0] c
  show ?thesis
    by metis
qed

section \<open>Matching switched off\<close>

text \<open>
  C4. When the configuration holds \<^verbatim>\<open>use_matching: false\<close> and \<^verbatim>\<open>build_model\<close> returns,
  it has created no parameter (the state is as it was) and has assigned neither
  \<^verbatim>\<open>shared_emb_banks\<close> nor \<^verbatim>\<open>text_matching\<close>. On the system it returns, \<^verbatim>\<open>common_step\<close>,
  \<^verbatim>\<open>synth_step\<close> and \<^verbatim>\<open>inference\<close> log no call of the matching module and never fail for
  the missing attribute, whatever their arguments. Moreover \<^verbatim>\<open>synth_step\<close> returns on
  every 13-element batch, \<^verbatim>\<open>inference\<close> returns whenever no language identifier is given,
  and \<^verbatim>\<open>common_step\<close> returns on every 13-element batch provided the loss function yields
  at least the six terms the dictionary reads.
\<close>

theorem matching_disabled:
  assumes cfg: "cfg_get (model_config self) ''use_matching'' = Inr (CBool False)"
    and build: "build_model env self st = (Inr sys, st')"
  shows "st' = st \<and> shared_emb_banks sys = None \<and> text_matching sys = None \<and>
         (\<forall>batch i t s.
            filter is_matching_call (trace (snd (common_step sys batch i t s))) =
              filter is_matching_call (trace s) \<and>
            fst (common_step sys batch i t s) \<noteq> Inl (AttributeError ''text_matching'')) \<and>
         (\<forall>batch i s.
            filter is_matching_call (trace (snd (synth_step sys batch i s))) =
              filter is_matching_call (trace s) \<and>
            fst (synth_step sys batch i s) \<noteq> Inl (AttributeError ''text_matching'')) \<and>
         (\<forall>env' spk_ref_mel_slice text symbol_id lang_id s.
            filter is_matching_call
              (trace (snd (inference env' sys spk_ref_mel_slice text symbol_id lang_id s))) =
              filter is_matching_call (trace s) \<and>
            fst (inference env' sys spk_ref_mel_slice text symbol_id lang_id s) \<noteq>
              Inl (AttributeError ''text_matching'')) \<and>
         (\<forall>batch i t s.
            length batch = 13 \<and> (\<forall>targets p. 6 \<le> length (loss_func sys targets p)) \<longrightarrow>
            (\<exists>d out s'. common_step sys batch i t s = (Inr (d, out), s'))) \<and>
         (\<forall>batch i s.
            length batch = 13 \<longrightarrow> (\<exists>out s'. synth_step sys batch i s = (Inr out, s'))) \<and>
         (\<forall>env' spk_ref_mel_slice text symbol_id s.
            \<exists>out s'. inference env' sys spk_ref_mel_slice text symbol_id None s = (Inr out, s'))"
proof -
  from build_model_Inr(1) [OF build] cfg have u: "use_matching sys = CBool False"
    by simp
  then have off: "\<not> truthy (use_matching sys)"
    by simp
  then have ready: "matching_ready sys"
    by (simp add: matching_ready_def)
  have a: "st' = st \<and> shared_emb_banks sys = None \<and> text_matching sys = None"
    using build_model_Inr(2) [OF build off] .
  have b: "\<exists>d out s'. common_step sys batch i t s = (Inr (d, out), s')"
    if "length batch = 13" "\<forall>targets p. 6 \<le> length (loss_func sys targets p)"
    for batch i t s
    using common_step_forward [OF _ ready, of batch s i t] that
    by (simp add: Let_def)
  have c: "\<exists>out s'. synth_step sys batch i s = (Inr out, s')"
    if "length batch = 13" for batch i s
    using synth_step_forward [OF _ ready, of batch s i] that
    by (simp add: Let_def)
  have d: "\<exists>out s'. inference env' sys mel toks symbol_id None s = (Inr out, s')"
    for env' mel toks symbol_id s
    using inference_forward [OF ready, of None VNone env' toks symbol_id s mel]
    by (simp add: Let_def)
  from a b c d common_step_off [OF off] synth_step_off [OF off] inference_off [OF off]
  show ?thesis
    by blast
qed

theorem matching_disabled_witness:
  "cfg_get (model_config (sample_self False)) ''use_matching'' = Inr (CBool False) \<and>
   build_model sample_env (sample_self False) sample_state =
     (Inr (sample_system False), sample_state) \<and>
   shared_emb_banks (sample_system False) = None \<and>
   text_matching (sample_system False) = None \<and>
   length sample_batch = 13 \<and>
   (\<exists>d out s'. common_step (sample_system False) sample_batch 0 True sample_state =
      (Inr (d, out), s')) \<and>
   (\<exists>out s'. synth_step (sample_system False) sample_batch 0 sample_state = (Inr out, s')) \<and>
   (\<exists>out s'. inference sample_env (sample_system False) [1, 2, 3] [4, 5] ''en'' None
      sample_state = (Inr out, s')) \<and>
   filter is_matching_call
     (trace (snd (common_step (sample_system False) sample_batch 0 True sample_state))) = []"
proof -
  have h: "cfg_get (model_config (sample_self False)) ''use_matching'' = Inr (CBool False)"
    by (simp add: sample_self_def sample_model_config_def)
  have l: "\<forall>targets p. 6 \<le> length (loss_func (sample_system False) targets p)"
    by (simp add: sample_system_def)
  have t: "filter is_matching_call (trace sample_state) = []"
    by (simp add: sample_state_def)
  from matching_disabled [OF h build_model_sample_off] h build_model_sample_off l t
    length_sample_batch
  show ?thesis
    by metis
qed

section \<open>Properties of inference\<close>

text \<open>
  C5, as amended. For every audio slice, token sequence and symbol-set identifier, and
  every language identifier that is absent or a key of \<^verbatim>\<open>LANG_NAME2ID\<close>, \<^verbatim>\<open>inference\<close> on a
  system whose matching module is assigned when matching is enabled returns the result of
  the acoustic model: the record of the ten artifacts \<open>output'\<close>, \<open>postnet_output\<close>,
  \<open>p_predictions\<close>, \<open>e_predictions\<close>, \<open>log_d_predictions\<close>, \<open>d_rounded\<close>, \<open>src_masks\<close>,
  \<open>mel_masks\<close>, \<open>src_lens\<close>, \<open>mel_lens\<close>. The model is called on the speaker arguments, the
  encoded (and, if enabled, matched) text, the length tensor \<open>[len(text)]\<close> and its
  maximum, with \<^verbatim>\<open>lang_args\<close> the one-element tensor of the language id or None; the
  encoder is given the same length tensor. Every call of the pipeline is logged with
  gradient tracking off, and the gradient mode after the call is the one before it; these
  two hold for every call of \<^verbatim>\<open>inference\<close>, also a failing one.
\<close>

theorem inference_forward_pass:
  assumes ready: "matching_ready self"
    and lang: "lang_id = None \<and> lang_args = VNone \<or>
               (\<exists>l i. lang_id = Some l \<and> map_of (LANG_NAME2ID env) l = Some i \<and>
                      lang_args = VLong [i])"
  shows "(let n = int (length text);
              texts = VLong2 [text];
              e1 = embedding_model self [texts, VStr symbol_id];
              e2 = text_encoder self e1 (VLong [n]);
              e3 = matched_texts self (store st) e2;
              args = [VTuple [VFloat spk_ref_mel_slice,
                              VList [VSlice 0 (length spk_ref_mel_slice)]],
                      e3, VLong [n], VLong0 n];
              kwargs = [(''lang_args'', lang_args), (''average_spk_emb'', VBool True)]
          in inference env self spk_ref_mel_slice text symbol_id lang_id st =
               (Inr (model self args kwargs),
                st\<lparr>trace := trace st @
                      [EmbeddingCall False [texts, VStr symbol_id],
                       TextEncoderCall False e1 (VLong [n])] @
                      matching_events self False e2 @ [ModelCall False args kwargs]\<rparr>)) \<and>
         list_all (\<lambda>e. \<not> event_grad e)
           (new_events st (snd (inference env self spk_ref_mel_slice text symbol_id lang_id st))) \<and>
         grad_enabled (snd (inference env self spk_ref_mel_slice text symbol_id lang_id st)) =
           grad_enabled st"
  using inference_forward [OF ready lang] inference_grad
  by blast

theorem inference_forward_pass_witness:
  "matching_ready (sample_system True) \<and>
   map_of (LANG_NAME2ID sample_env) ''zh'' = Some 1 \<and>
   inference sample_env (sample_system True) [1, 2, 3] [4, 5] ''en'' (Some ''zh'') sample_state =
     (Inr (sample_output
            [VTuple [VFloat [1, 2, 3], VList [VSlice 0 3]],
             VTuple [VNone, VTuple [VList [VLong2 [[4, 5]], VStr ''en''], VLong [2]]],
             VLong [2], VLong0 2]
            [(''lang_args'', VLong [1]), (''average_spk_emb'', VBool True)]),
      sample_state\<lparr>trace :=
        [EmbeddingCall False [VLong2 [[4, 5]], VStr ''en''],
         TextEncoderCall False (VList [VLong2 [[4, 5]], VStr ''en'']) (VLong [2]),
         MatchingCall False 0 (VTuple [VList [VLong2 [[4, 5]], VStr ''en''], VLong [2]]),
         ModelCall False
           [VTuple [VFloat [1, 2, 3], VList [VSlice 0 3]],
            VTuple [VNone, VTuple [VList [VLong2 [[4, 5]], VStr ''en''], VLong [2]]],
            VLong [2], VLong0 2]
           [(''lang_args'', VLong [1]), (''average_spk_emb'', VBool True)]]\<rparr>)"
proof -
  have l: "map_of (LANG_NAME2ID sample_env) ''zh'' = Some 1"
    by (simp add: sample_env_def)
  then have h: "Some ''zh'' = None \<and> VLong [1] = (VNone :: nat val) \<or>
      (\<exists>l i. Some ''zh'' = Some l \<and> map_of (LANG_NAME2ID sample_env) l = Some i \<and>
             (VLong [1] :: nat val) = VLong [i])"
    by simp
  from inference_forward_pass [OF matching_ready_sample [of True] h, of "[4, 5]" "''en''"
      sample_state "[1, 2, 3]"]
  have "inference sample_env (sample_system True) [1, 2, 3] [4, 5] ''en'' (Some ''zh'') sample_state =
     (Inr (sample_output
            [VTuple [VFloat [1, 2, 3], VList [VSlice 0 3]],
             VTuple [VNone, VTuple [VList [VLong2 [[4, 5]], VStr ''en''], VLong [2]]],
             VLong [2], VLong0 2]
            [(''lang_args'', VLong [1]), (''average_spk_emb'', VBool True)]),
      sample_state\<lparr>trace :=
        [EmbeddingCall False [VLong2 [[4, 5]], VStr ''en''],
         TextEncoderCall False (VList [VLong2 [[4, 5]], VStr ''en'']) (VLong [2]),
         MatchingCall False 0 (VTuple [VList [VLong2 [[4, 5]], VStr ''en''], VLong [2]]),
         ModelCall False
           [VTuple [VFloat [1, 2, 3], VList [VSlice 0 3]],
            VTuple [VNone, VTuple [VList [VLong2 [[4, 5]], VStr ''en''], VLong [2]]],
            VLong [2], VLong0 2]
           [(''lang_args'', VLong [1]), (''average_spk_emb'', VBool True)]]\<rparr>)"
    by (simp add: Let_def sample_system_def sample_state_def matched_texts_def
        matching_events_def sample_codebook_def numeral_3_eq_3)
  with l matching_ready_sample show ?thesis
    by simp
qed

text \<open>
  The claim as first stated, for every optional language identifier, fails on an
  identifier the table does not hold: the call returns no artifacts.
\<close>

theorem inference_forward_pass_counterexample:
  "inference sample_env (sample_system False) [1, 2] [4, 5, 6] ''en'' (Some ''de'') sample_state =
     (Inl (KeyError ''de''), sample_state)"
  by (simp add: inference_def exec_defs dict_get_def sample_env_def)

text \<open>
  C8. For every call of \<^verbatim>\<open>inference\<close> with a language identifier that is supplied and is
  not a key of \<^verbatim>\<open>LANG_NAME2ID\<close>, the call ends with the KeyError of the lookup, and the
  state is as it was before the call: no submodule has been called.
\<close>

theorem inference_unknown_language:
  assumes "map_of (LANG_NAME2ID env) l = None"
  shows "inference env self spk_ref_mel_slice text symbol_id (Some l) st =
           (Inl (KeyError l), st)"
  using assms by (simp add: inference_def exec_defs dict_get_def)

theorem inference_unknown_language_witness:
  "map_of (LANG_NAME2ID sample_env) ''xx'' = None \<and>
   inference sample_env (sample_system True) [1, 2, 3] [4, 5] ''en'' (Some ''xx'') sample_state =
     (Inl (KeyError ''xx''), sample_state)"
proof -
  have h: "map_of (LANG_NAME2ID sample_env) ''xx'' = None"
    by (simp add: sample_env_def)
  from inference_unknown_language [OF h] show ?thesis using h by simp
qed

text \<open>
  C10. With no language identifier, \<^verbatim>\<open>inference\<close> does not depend on the language table:
  under any two environments it returns the same result and leaves the same state. Every
  call of the acoustic model it logs carries \<^verbatim>\<open>lang_args = None\<close>, and on a system whose
  matching module is assigned when matching is enabled the call returns what the model
  returns on these keyword arguments, the model call being the last one logged. For
  every call of \<^verbatim>\<open>inference\<close>, a KeyError \<open>k\<close> arises only if the identifier \<open>k\<close> was
  supplied and the table does not hold it.
\<close>

theorem inference_without_language:
  "inference env self spk_ref_mel_slice text symbol_id None st =
     inference env' self spk_ref_mel_slice text symbol_id None st \<and>
   (fst (inference env self spk_ref_mel_slice text symbol_id lang_id st) = Inl (KeyError k) \<longrightarrow>
      lang_id = Some k \<and> map_of (LANG_NAME2ID env) k = None) \<and>
   (\<forall>g args kwargs.
      ModelCall g args kwargs \<in>
        set (new_events st (snd (inference env self spk_ref_mel_slice text symbol_id None st))) \<longrightarrow>
      kwargs = [(''lang_args'', VNone), (''average_spk_emb'', VBool True)]) \<and>
   (matching_ready self \<longrightarrow>
      (\<exists>args.
         fst (inference env self spk_ref_mel_slice text symbol_id None st) =
           Inr (model self args [(''lang_args'', VNone), (''average_spk_emb'', VBool True)]) \<and>
         last (trace (snd (inference env self spk_ref_mel_slice text symbol_id None st))) =
           ModelCall False args [(''lang_args'', VNone), (''average_spk_emb'', VBool True)]))"
proof -
  have a: "inference env self spk_ref_mel_slice text symbol_id None st =
     inference env' self spk_ref_mel_slice text symbol_id None st"
    by (simp add: inference_def)
  have d: "\<exists>args.
         fst (inference env self spk_ref_mel_slice text symbol_id None st) =
           Inr (model self args [(''lang_args'', VNone), (''average_spk_emb'', VBool True)]) \<and>
         last (trace (snd (inference env self spk_ref_mel_slice text symbol_id None st))) =
           ModelCall False args [(''lang_args'', VNone), (''average_spk_emb'', VBool True)]"
    if ready: "matching_ready self"
    using inference_forward [OF ready, of None VNone env "text" symbol_id st spk_ref_mel_slice]
    by (simp add: Let_def)
  from a d inference_KeyError inference_model_calls show ?thesis
    by blast
qed

theorem inference_without_language_witness:
  "matching_ready (sample_system True) \<and>
   (\<exists>args.
      fst (inference sample_env (sample_system True) [1, 2, 3] [4, 5] ''en'' None sample_state) =
        Inr (model (sample_system True) args
               [(''lang_args'', VNone), (''average_spk_emb'', VBool True)]) \<and>
      last (trace (snd (inference sample_env (sample_system True) [1, 2, 3] [4, 5] ''en'' None
                          sample_state))) =
        ModelCall False args [(''lang_args'', VNone), (''average_spk_emb'', VBool True)]) \<and>
   inference sample_env (sample_system True) [1, 2, 3] [4, 5] ''en'' None sample_state =
     inference (sample_env\<lparr>LANG_NAME2ID := []\<rparr>) (sample_system True) [1, 2, 3] [4, 5] ''en'' None
       sample_state \<and>
   fst (inference sample_env (sample_system True) [1, 2, 3] [4, 5] ''en'' (Some ''fr'')
          sample_state) = Inl (KeyError ''fr'') \<and>
   map_of (LANG_NAME2ID sample_env) ''fr'' = None"
proof -
  have k: "fst (inference sample_env (sample_system True) [1, 2, 3] [4, 5] ''en'' (Some ''fr'')
          sample_state) = Inl (KeyError ''fr'')"
    by (simp add: inference_def exec_defs dict_get_def sample_env_def)
  from inference_without_language [of sample_env "sample_system True" "[1, 2, 3]" "[4, 5]"
      "''en''" sample_state "sample_env\<lparr>LANG_NAME2ID := []\<rparr>" "Some ''fr''" "''fr''"]
    k matching_ready_sample
  show ?thesis
    by blast
qed

section \<open>The optimized modules\<close>

text \<open>
  C6. \<^verbatim>\<open>build_optimized_model\<close> returns the list of the text encoder, the acoustic model
  and the embedding module, in this order, followed by the matching module when
  \<^verbatim>\<open>use_matching\<close> is enabled, and exactly these when it is not. Whatever it returns holds
  no loss function, and holds a matching module if and only if \<^verbatim>\<open>use_matching\<close> is
  enabled.
\<close>

theorem optimized_modules:
  "(truthy (use_matching self) \<and> text_matching self = Some cb \<longrightarrow>
      build_optimized_model self =
        Inr [TextEncoderModule (text_encoder self), AcousticModule (model self),
             EmbeddingModule (embedding_model self), CodebookModule cb]) \<and>
   (\<not> truthy (use_matching self) \<longrightarrow>
      build_optimized_model self =
        Inr [TextEncoderModule (text_encoder self), AcousticModule (model self),
             EmbeddingModule (embedding_model self)]) \<and>
   (build_optimized_model self = Inr ms \<longrightarrow>
      (\<forall>f. LossModule f \<notin> set ms) \<and>
      ((\<exists>c. CodebookModule c \<in> set ms) \<longleftrightarrow> truthy (use_matching self)))"
  by (auto simp add: build_optimized_model_def Let_def split: option.splits if_splits)

theorem optimized_modules_witness:
  "truthy (use_matching (sample_system True)) \<and>
   text_matching (sample_system True) = Some (sample_codebook 0) \<and>
   build_optimized_model (sample_system True) =
     Inr [TextEncoderModule (text_encoder (sample_system True)),
          AcousticModule (model (sample_system True)),
          EmbeddingModule (embedding_model (sample_system True)),
          CodebookModule (sample_codebook 0)] \<and>
   \<not> truthy (use_matching (sample_system False)) \<and>
   build_optimized_model (sample_system False) =
     Inr [TextEncoderModule (text_encoder (sample_system False)),
          AcousticModule (model (sample_system False)),
          EmbeddingModule (embedding_model (sample_system False))] \<and>
   (\<forall>f. LossModule f \<notin>
      set [TextEncoderModule (text_encoder (sample_system False)),
           AcousticModule (model (sample_system False)),
           EmbeddingModule (embedding_model (sample_system False))])"
proof -
  have on: "truthy (use_matching (sample_system True))"
    "text_matching (sample_system True) = Some (sample_codebook 0)"
    by (simp_all add: sample_system_def)
  have off: "\<not> truthy (use_matching (sample_system False))"
    by (simp add: sample_system_def)
  from optimized_modules [of "sample_system True" "sample_codebook 0"] on
  have a: "build_optimized_model (sample_system True) =
     Inr [TextEncoderModule (text_encoder (sample_system True)),
          AcousticModule (model (sample_system True)),
          EmbeddingModule (embedding_model (sample_system True)),
          CodebookModule (sample_codebook 0)]"
    by blast
  from optimized_modules [of "sample_system False" _
      "[TextEncoderModule (text_encoder (sample_system False)),
        AcousticModule (model (sample_system False)),
        EmbeddingModule (embedding_model (sample_system False))]"] off
  have b: "build_optimized_model (sample_system False) =
     Inr [TextEncoderModule (text_encoder (sample_system False)),
          AcousticModule (model (sample_system False)),
          EmbeddingModule (embedding_model (sample_system False))] \<and>
     (\<forall>f. LossModule f \<notin>
        set [TextEncoderModule (text_encoder (sample_system False)),
             AcousticModule (model (sample_system False)),
             EmbeddingModule (embedding_model (sample_system False))])"
    by blast
  from on off a b show ?thesis
    by blast
qed

section \<open>The data flow of \<^verbatim>\<open>common_step\<close>\<close>

text \<open>
  C7. On every 13-element batch, and on a system whose matching module is assigned when
  matching is enabled (as \<^verbatim>\<open>build_model\<close> leaves it), \<^verbatim>\<open>common_step\<close> calls, in this order:
  the embedding module on \<^verbatim>\<open>batch[3]\<close>; the text encoder on the embedding with lengths
  \<^verbatim>\<open>batch[4]\<close>; the matching module on the encoding, if matching is enabled; the acoustic
  model on \<^verbatim>\<open>batch[2]\<close>, the encoded (matched) text and \<^verbatim>\<open>batch[4:]\<close>; the loss function on
  \<^verbatim>\<open>batch[:-1]\<close> and the model's predictions. Each call is given the result of the one
  before it. The step returns the predictions together with the dictionary of the first
  six loss terms, and fails with IndexError if the loss function yields fewer.
\<close>

theorem common_step_data_flow:
  assumes len: "length batch = 13" and ready: "matching_ready self"
  shows "(let g = grad_enabled st;
              e1 = embedding_model self [batch ! 3];
              e2 = text_encoder self e1 (batch ! 4);
              e3 = matched_texts self (store st) e2;
              out = model self (batch ! 2 # e3 # drop 4 batch) [];
              loss = loss_func self (butlast batch) out
          in common_step self batch batch_idx train st =
               (if 6 \<le> length loss
                then Inr ([(''Total Loss'', loss ! 0), (''Mel Loss'', loss ! 1),
                           (''Mel-Postnet Loss'', loss ! 2), (''Pitch Loss'', loss ! 3),
                           (''Energy Loss'', loss ! 4), (''Duration Loss'', loss ! 5)], out)
                else Inl IndexError,
                st\<lparr>trace := trace st @
                      [EmbeddingCall g [batch ! 3], TextEncoderCall g e1 (batch ! 4)] @
                      matching_events self g e2 @
                      [ModelCall g (batch ! 2 # e3 # drop 4 batch) [],
                       LossCall g (butlast batch) out]\<rparr>))"
proof -
  from len have "4 < length batch"
    by simp
  from common_step_forward [OF this ready] show ?thesis .
qed

theorem common_step_data_flow_witness:
  "length sample_batch = 13 \<and> matching_ready (sample_system True) \<and>
   trace (snd (common_step (sample_system True) sample_batch 0 True sample_state)) =
     [EmbeddingCall True [VLong [3]],
      TextEncoderCall True (VList [VLong [3]]) (VLong [4]),
      MatchingCall True 0 (VTuple [VList [VLong [3]], VLong [4]]),
      ModelCall True
        [VLong [2], VTuple [VNone, VTuple [VList [VLong [3]], VLong [4]]],
         VLong [4], VLong [5], VLong [6], VLong [7], VLong [8], VLong [9], VLong [10],
         VLong [11], VLong [12]] [],
      LossCall True
        [VLong [0], VLong [1], VLong [2], VLong [3], VLong [4], VLong [5], VLong [6],
         VLong [7], VLong [8], VLong [9], VLong [10], VLong [11]]
        (sample_output
           [VLong [2], VTuple [VNone, VTuple [VList [VLong [3]], VLong [4]]],
            VLong [4], VLong [5], VLong [6], VLong [7], VLong [8], VLong [9], VLong [10],
            VLong [11], VLong [12]] [])]"
proof -
  from common_step_data_flow [OF length_sample_batch matching_ready_sample [of True],
      of sample_state 0 True]
  have "trace (snd (common_step (sample_system True) sample_batch 0 True sample_state)) =
     [EmbeddingCall True [VLong [3]],
      TextEncoderCall True (VList [VLong [3]]) (VLong [4]),
      MatchingCall True 0 (VTuple [VList [VLong [3]], VLong [4]]),
      ModelCall True
        [VLong [2], VTuple [VNone, VTuple [VList [VLong [3]], VLong [4]]],
         VLong [4], VLong [5], VLong [6], VLong [7], VLong [8], VLong [9], VLong [10],
         VLong [11], VLong [12]] [],
      LossCall True
        [VLong [0], VLong [1], VLong [2], VLong [3], VLong [4], VLong [5], VLong [6],
         VLong [7], VLong [8], VLong [9], VLong [10], VLong [11]]
        (sample_output
           [VLong [2], VTuple [VNone, VTuple [VList [VLong [3]], VLong [4]]],
            VLong [4], VLong [5], VLong [6], VLong [7], VLong [8], VLong [9], VLong [10],
            VLong [11], VLong [12]] [])]"
    by (simp add: Let_def sample_batch_def sample_system_def sample_state_def
        matched_texts_def matching_events_def sample_codebook_def)
  with length_sample_batch matching_ready_sample show ?thesis
    by simp
qed

section \<open>The shared embedding bank\<close>

text \<open>
  C9. After \<^verbatim>\<open>build_model\<close> with \<^verbatim>\<open>use_matching\<close> enabled, \<^verbatim>\<open>self.shared_emb_banks\<close> and
  \<^verbatim>\<open>self.text_matching.emb_banks\<close> are one parameter object: the same address of the
  store. So in every state both read the same bank; an update of the bank through the
  system is read through the matching module, and the other way round; and a call of the
  matching module after an update through the system attends over the updated bank.
\<close>

theorem shared_bank_aliased:
  assumes "build_model env self st = (Inr sys, st')"
    and "truthy (use_matching sys)"
  shows "\<exists>a cb. shared_emb_banks sys = Some a \<and> text_matching sys = Some cb \<and>
           emb_banks cb = a \<and>
           (\<forall>s v x.
              matching_bank sys s = system_bank sys s \<and>
              matching_bank sys (update_system_bank sys v s) = Some v \<and>
              system_bank sys (update_matching_bank sys v s) = Some v \<and>
              fst (call_text_matching sys x (update_system_bank sys v s)) =
                Inr (attend cb v x))"
proof -
  from build_model_Inr(3) [OF assms] obtain cb where
    "shared_emb_banks sys = Some (next_addr st)" "text_matching sys = Some cb"
    "emb_banks cb = next_addr st"
    by blast
  then show ?thesis
    by (simp add: matching_bank_def system_bank_def update_system_bank_def
        update_matching_bank_def write_param_def call_text_matching_def)
qed

theorem shared_bank_aliased_witness:
  "build_model sample_env (sample_self True) sample_state =
     (Inr (sample_system True), sample_built_state) \<and>
   truthy (use_matching (sample_system True)) \<and>
   (\<exists>a cb. shared_emb_banks (sample_system True) = Some a \<and>
      text_matching (sample_system True) = Some cb \<and> emb_banks cb = a \<and>
      (\<forall>s v x.
         matching_bank (sample_system True) s = system_bank (sample_system True) s \<and>
         matching_bank (sample_system True) (update_system_bank (sample_system True) v s) =
           Some v \<and>
         system_bank (sample_system True) (update_matching_bank (sample_system True) v s) =
           Some v \<and>
         fst (call_text_matching (sample_system True) x
                (update_system_bank (sample_system True) v s)) = Inr (attend cb v x)))"
proof -
  have t: "truthy (use_matching (sample_system True))"
    by (simp add: sample_system_def)
  from shared_bank_aliased [OF build_model_sample_on t] build_model_sample_on t
  show ?thesis
    by blast
qed

end
